theory Spec2Isabelle
  imports Main "HOL-Library.Word"
begin

unbundle bit_operations_syntax

section \<open>The serial transport shim of helium-client-python\<close>

text \<open>
  The development embeds \<^verbatim>\<open>src/helium_client/_serial.c\<close>. The file consists of
  six C functions, each a short sequence of POSIX calls. The calls themselves belong to
  the operating system, so the embedding takes the operating system as a parameter
  (a record of response functions over an arbitrary world type) and threads the world
  through every function. Each call is also appended, with its arguments and its
  result, to a log; statements such as "exactly one read request" or "no close is
  issued" are statements about that log.
\<close>

subsection \<open>C types\<close>

type_synonym c_int = "32 word"
type_synonym c_short = "16 word"
type_synonym c_ulong = "64 word"
type_synonym ssize_t = "64 word"
type_synonym intptr_t = "64 word"
type_synonym uint8_t = "8 word"
type_synonym uint32_t = "32 word"
type_synonym tcflag_t = "32 word"
type_synonym speed_t = "32 word"
type_synonym cc_t = "8 word"

text \<open>
  \<^verbatim>\<open>struct termios\<close>: the four mode words, the line discipline, the array of
  control characters and the two baud rates that POSIX says the structure stores.
\<close>

record termios =
  c_iflag :: tcflag_t
  c_oflag :: tcflag_t
  c_cflag :: tcflag_t
  c_lflag :: tcflag_t
  c_line :: cc_t
  c_cc :: "cc_t list"
  c_ispeed :: speed_t
  c_ospeed :: speed_t

text \<open>\<^verbatim>\<open>struct pollfd\<close>; the field \<^verbatim>\<open>fd\<close> is called \<open>pfd\<close> here.\<close>

record pollfd =
  pfd :: c_int
  events :: c_short
  revents :: c_short

subsection \<open>Constants of the system headers\<close>

text \<open>
  The macros of \<^verbatim>\<open><termios.h>\<close>, \<^verbatim>\<open><fcntl.h>\<close>, \<^verbatim>\<open><sys/ioctl.h>\<close> and
  \<^verbatim>\<open><poll.h>\<close> that the source uses are not part of the repository. They are
  parameters of the embedding: every function takes the record that holds them.
\<close>

record speed_consts =
  B9600 :: speed_t
  B19200 :: speed_t
  B38400 :: speed_t
  B57600 :: speed_t
  B115200 :: speed_t

record cflag_consts =
  CLOCAL :: tcflag_t
  CREAD :: tcflag_t
  CSIZE :: tcflag_t
  CS8 :: tcflag_t
  PARENB :: tcflag_t
  CSTOPB :: tcflag_t
  CRTSCTS :: tcflag_t

record iflag_consts =
  IGNBRK :: tcflag_t
  BRKINT :: tcflag_t
  PARMRK :: tcflag_t
  ISTRIP :: tcflag_t
  INLCR :: tcflag_t
  IGNCR :: tcflag_t
  ICRNL :: tcflag_t
  IXON :: tcflag_t

record lflag_consts =
  ECHO :: tcflag_t
  ECHONL :: tcflag_t
  ICANON :: tcflag_t
  ISIG :: tcflag_t
  IEXTEN :: tcflag_t

record misc_consts =
  OPOST :: tcflag_t
  VMIN :: nat
  VTIME :: nat
  TCSANOW :: c_int
  O_RDWR :: c_int
  O_NOCTTY :: c_int
  O_NONBLOCK :: c_int
  F_SETFL :: c_int
  TIOCEXCL :: c_ulong
  POLLIN :: c_short

text \<open>
  The masks and the bound that the C library's \<^verbatim>\<open>cfsetospeed\<close> and
  \<^verbatim>\<open>cfsetispeed\<close> use: the speed bits \<^verbatim>\<open>CBAUD\<close> and \<^verbatim>\<open>CBAUDEX\<close> of
  \<^verbatim>\<open>c_cflag\<close>, the bit \<^verbatim>\<open>IBAUD0\<close> of \<^verbatim>\<open>c_iflag\<close>, and the highest speed
  constant \<^verbatim>\<open>__MAX_BAUD\<close> (an Isabelle name cannot start with an underscore).
\<close>

record baud_consts =
  CBAUD :: tcflag_t
  CBAUDEX :: tcflag_t
  IBAUD0 :: tcflag_t
  MAX_BAUD :: speed_t

record platform =
  speeds :: speed_consts
  cflags :: cflag_consts
  iflags :: iflag_consts
  lflags :: lflag_consts
  misc :: misc_consts
  bauds :: baud_consts

text \<open>
  \<^verbatim>\<open>enum helium_baud\<close> is declared in \<^verbatim>\<open>helium-client/helium-client.h\<close>, which
  is not part of the repository either. An object of the enumerated type holds an
  integer, and nothing stops a caller from passing an integer that is none of the
  enumerators, so a selector is a \<open>c_int\<close> and the values of the six enumerators are
  parameters.
\<close>

record helium_baud =
  helium_baud_b9600 :: c_int
  helium_baud_b14400 :: c_int
  helium_baud_b19200 :: c_int
  helium_baud_b38400 :: c_int
  helium_baud_b57600 :: c_int
  helium_baud_b115200 :: c_int

definition enumerators :: "helium_baud \<Rightarrow> c_int list" where
  "enumerators E =
     [helium_baud_b9600 E, helium_baud_b14400 E, helium_baud_b19200 E,
      helium_baud_b38400 E, helium_baud_b57600 E, helium_baud_b115200 E]"

subsection \<open>The operating system\<close>

text \<open>
  One constructor per system call: the arguments of the call, then what it returned.
  \<open>Sys_tcgetattr\<close> carries the attributes the call stored, \<open>Sys_poll\<close> the polled
  entry, the number of entries, the timeout, the result and the reported conditions,
  \<open>Sys_read\<close> the bytes it transferred.
\<close>

datatype syscall =
    Sys_open string c_int c_int
  | Sys_ioctl c_int c_ulong c_int
  | Sys_fcntl c_int c_int c_int c_int
  | Sys_tcgetattr c_int c_int termios
  | Sys_tcsetattr c_int c_int termios c_int
  | Sys_poll pollfd nat c_int c_int c_short
  | Sys_read c_int nat ssize_t "uint8_t list"
  | Sys_write c_int "uint8_t list" ssize_t
  | Sys_usleep uint32_t
  | Sys_close c_int c_int

text \<open>
  The operating system over worlds of type \<open>'w\<close>. \<open>os_read\<close> answers with an error
  number or with the bytes the device has for the caller, \<open>os_write\<close> with an error
  number or with the number of bytes the device takes.
\<close>

record 'w os =
  os_open :: "string \<Rightarrow> c_int \<Rightarrow> 'w \<Rightarrow> c_int \<times> 'w"
  os_ioctl :: "c_int \<Rightarrow> c_ulong \<Rightarrow> 'w \<Rightarrow> c_int \<times> 'w"
  os_fcntl :: "c_int \<Rightarrow> c_int \<Rightarrow> c_int \<Rightarrow> 'w \<Rightarrow> c_int \<times> 'w"
  os_tcgetattr :: "c_int \<Rightarrow> 'w \<Rightarrow> (c_int \<times> termios) \<times> 'w"
  os_tcsetattr :: "c_int \<Rightarrow> c_int \<Rightarrow> termios \<Rightarrow> 'w \<Rightarrow> c_int \<times> 'w"
  os_poll :: "pollfd \<Rightarrow> c_int \<Rightarrow> 'w \<Rightarrow> (c_int \<times> c_short) \<times> 'w"
  os_read :: "c_int \<Rightarrow> nat \<Rightarrow> 'w \<Rightarrow> (nat + uint8_t list) \<times> 'w"
  os_write :: "c_int \<Rightarrow> uint8_t list \<Rightarrow> 'w \<Rightarrow> (nat + nat) \<times> 'w"
  os_usleep :: "uint32_t \<Rightarrow> 'w \<Rightarrow> 'w"
  os_close :: "c_int \<Rightarrow> 'w \<Rightarrow> c_int \<times> 'w"

text \<open>The state of a run: the world and the log of the calls made so far.\<close>

type_synonym 'w run = "'w \<times> syscall list"

definition sys_open :: "'w os \<Rightarrow> string \<Rightarrow> c_int \<Rightarrow> 'w run \<Rightarrow> c_int \<times> 'w run" where
  "sys_open os path flags s =
     (case os_open os path flags (fst s) of
        (r, w) \<Rightarrow> (r, (w, snd s @ [Sys_open path flags r])))"

definition sys_ioctl :: "'w os \<Rightarrow> c_int \<Rightarrow> c_ulong \<Rightarrow> 'w run \<Rightarrow> c_int \<times> 'w run" where
  "sys_ioctl os fd req s =
     (case os_ioctl os fd req (fst s) of
        (r, w) \<Rightarrow> (r, (w, snd s @ [Sys_ioctl fd req r])))"

definition sys_fcntl :: "'w os \<Rightarrow> c_int \<Rightarrow> c_int \<Rightarrow> c_int \<Rightarrow> 'w run \<Rightarrow> c_int \<times> 'w run" where
  "sys_fcntl os fd cmd arg s =
     (case os_fcntl os fd cmd arg (fst s) of
        (r, w) \<Rightarrow> (r, (w, snd s @ [Sys_fcntl fd cmd arg r])))"

definition sys_tcgetattr :: "'w os \<Rightarrow> c_int \<Rightarrow> 'w run \<Rightarrow> (c_int \<times> termios) \<times> 'w run" where
  "sys_tcgetattr os fd s =
     (case os_tcgetattr os fd (fst s) of
        ((r, tty), w) \<Rightarrow> ((r, tty), (w, snd s @ [Sys_tcgetattr fd r tty])))"

definition sys_tcsetattr ::
  "'w os \<Rightarrow> c_int \<Rightarrow> c_int \<Rightarrow> termios \<Rightarrow> 'w run \<Rightarrow> c_int \<times> 'w run" where
  "sys_tcsetattr os fd actions tty s =
     (case os_tcsetattr os fd actions tty (fst s) of
        (r, w) \<Rightarrow> (r, (w, snd s @ [Sys_tcsetattr fd actions tty r])))"




definition sys_usleep :: "'w os \<Rightarrow> uint32_t \<Rightarrow> 'w run \<Rightarrow> 'w run" where
  "sys_usleep os us s = (os_usleep os us (fst s), snd s @ [Sys_usleep us])"

definition sys_close :: "'w os \<Rightarrow> c_int \<Rightarrow> 'w run \<Rightarrow> c_int \<times> 'w run" where
  "sys_close os fd s =
     (case os_close os fd (fst s) of
        (r, w) \<Rightarrow> (r, (w, snd s @ [Sys_close fd r])))"

text \<open>The value a logged call returned, read as a signed integer.\<close>

fun sys_ret :: "syscall \<Rightarrow> int" where
  "sys_ret (Sys_open path flags r) = sint r"
| "sys_ret (Sys_ioctl fd req r) = sint r"
| "sys_ret (Sys_fcntl fd cmd arg r) = sint r"
| "sys_ret (Sys_tcgetattr fd r tty) = sint r"
| "sys_ret (Sys_tcsetattr fd actions tty r) = sint r"
| "sys_ret (Sys_poll p n timeout r re) = sint r"
| "sys_ret (Sys_read fd count r bytes) = sint r"
| "sys_ret (Sys_write fd buf r) = sint r"
| "sys_ret (Sys_usleep us) = 0"
| "sys_ret (Sys_close fd r) = sint r"



fun is_tcsetattr :: "syscall \<Rightarrow> bool" where
  "is_tcsetattr (Sys_tcsetattr fd actions tty r) = True"
| "is_tcsetattr c = False"

subsection \<open>The functions of \<^verbatim>\<open>_serial.c\<close>\<close>





definition helium_wait_us :: "'w os \<Rightarrow> intptr_t \<Rightarrow> uint32_t \<Rightarrow> 'w run \<Rightarrow> 'w run" where
  "helium_wait_us os param us s = sys_usleep os us s"

text \<open>
  \<^verbatim>\<open>cfsetospeed\<close> and \<^verbatim>\<open>cfsetispeed\<close> are functions of the C library, not of
  the repository. They are modelled as the GNU C library for Linux defines them, the
  library of the platform the source names:
  \<^verbatim>\<open>
  int cfsetospeed (struct termios *termios_p, speed_t speed)
  {
    if ((speed & ~CBAUD) != 0 && (speed < B57600 || speed > __MAX_BAUD))
      { __set_errno (EINVAL); return -1; }
    termios_p->c_ospeed = speed;
    termios_p->c_cflag &= ~(CBAUD | CBAUDEX);
    termios_p->c_cflag |= speed;
    return 0;
  }
  int cfsetispeed (struct termios *termios_p, speed_t speed)
  {
    if ((speed & ~CBAUD) != 0 && (speed < B57600 || speed > __MAX_BAUD))
      { __set_errno (EINVAL); return -1; }
    termios_p->c_ispeed = speed;
    if (speed == 0)
      termios_p->c_iflag |= IBAUD0;
    else
      {
        termios_p->c_iflag &= ~IBAUD0;
        termios_p->c_cflag &= ~(CBAUD | CBAUDEX);
        termios_p->c_cflag |= speed;
      }
    return 0;
  }
  \<close>
  A speed the library refuses leaves the structure as it was. The source ignores the
  results of both functions, so the model returns the structure only.
\<close>

definition speed_accepted :: "platform \<Rightarrow> speed_t \<Rightarrow> bool" where
  "speed_accepted P speed =
     (\<not> (speed AND NOT (CBAUD (bauds P)) \<noteq> 0
         \<and> (speed < B57600 (speeds P) \<or> speed > MAX_BAUD (bauds P))))"

definition cfsetospeed :: "platform \<Rightarrow> termios \<Rightarrow> speed_t \<Rightarrow> termios" where
  "cfsetospeed P termios_p speed =
     (if \<not> speed_accepted P speed then termios_p
      else let t = termios_p\<lparr>c_ospeed := speed\<rparr>;
               t = t\<lparr>c_cflag := c_cflag t AND NOT (CBAUD (bauds P) OR CBAUDEX (bauds P))\<rparr>;
               t = t\<lparr>c_cflag := c_cflag t OR speed\<rparr>
           in t)"

definition cfsetispeed :: "platform \<Rightarrow> termios \<Rightarrow> speed_t \<Rightarrow> termios" where
  "cfsetispeed P termios_p speed =
     (if \<not> speed_accepted P speed then termios_p
      else let t = termios_p\<lparr>c_ispeed := speed\<rparr>
           in if speed = 0 then t\<lparr>c_iflag := c_iflag t OR IBAUD0 (bauds P)\<rparr>
              else let t = t\<lparr>c_iflag := c_iflag t AND NOT (IBAUD0 (bauds P))\<rparr>;
                       t = t\<lparr>c_cflag := c_cflag t
                                 AND NOT (CBAUD (bauds P) OR CBAUDEX (bauds P))\<rparr>;
                       t = t\<lparr>c_cflag := c_cflag t OR speed\<rparr>
                   in t)"

text \<open>
  The assignments of \<^verbatim>\<open>_set_interface_attribs\<close> between the two calls, in the
  order of the source. \<^verbatim>\<open>VMIN\<close> and \<^verbatim>\<open>VTIME\<close> subscript the array
  \<^verbatim>\<open>c_cc\<close>; a subscript outside the array, which C leaves undefined, changes
  nothing here, and what is proved about the two entries assumes the array has them.
\<close>

definition configure :: "platform \<Rightarrow> termios \<Rightarrow> speed_t \<Rightarrow> termios" where
  "configure P tty0 speed =
     (let C = cflags P; I = iflags P; L = lflags P; M = misc P;
          tty = cfsetospeed P tty0 speed;
          tty = cfsetispeed P tty speed;
          tty = tty\<lparr>c_cflag := c_cflag tty OR (CLOCAL C OR CREAD C)\<rparr>;
          tty = tty\<lparr>c_cflag := c_cflag tty AND NOT (CSIZE C)\<rparr>;
          tty = tty\<lparr>c_cflag := c_cflag tty OR CS8 C\<rparr>;
          tty = tty\<lparr>c_cflag := c_cflag tty AND NOT (PARENB C)\<rparr>;
          tty = tty\<lparr>c_cflag := c_cflag tty AND NOT (CSTOPB C)\<rparr>;
          tty = tty\<lparr>c_cflag := c_cflag tty AND NOT (CRTSCTS C)\<rparr>;
          tty = tty\<lparr>c_iflag := c_iflag tty AND
                  NOT (IGNBRK I OR BRKINT I OR PARMRK I OR ISTRIP I OR INLCR I OR IGNCR I
                       OR ICRNL I OR IXON I)\<rparr>;
          tty = tty\<lparr>c_lflag := c_lflag tty AND
                  NOT (ECHO L OR ECHONL L OR ICANON L OR ISIG L OR IEXTEN L)\<rparr>;
          tty = tty\<lparr>c_oflag := c_oflag tty AND NOT (OPOST M)\<rparr>;
          tty = tty\<lparr>c_cc := (c_cc tty)[VMIN M := 1]\<rparr>;
          tty = tty\<lparr>c_cc := (c_cc tty)[VTIME M := 1]\<rparr>
      in tty)"

text \<open>
  \<^verbatim>\<open>_set_interface_attribs\<close> (an Isabelle name cannot start with an underscore).
\<close>

definition set_interface_attribs ::
  "platform \<Rightarrow> 'w os \<Rightarrow> c_int \<Rightarrow> c_int \<Rightarrow> 'w run \<Rightarrow> c_int \<times> 'w run" where
  "set_interface_attribs P os fd speed s =
     (case sys_tcgetattr os fd s of
        ((r, tty), s1) \<Rightarrow>
          if sint r < 0 then (- 1, s1)
          else case sys_tcsetattr os fd (TCSANOW (misc P)) (configure P tty speed) s1 of
                 (r', s2) \<Rightarrow> if r' \<noteq> 0 then (- 1, s2) else (0, s2))"

text \<open>
  The \<^verbatim>\<open>switch\<close> of \<^verbatim>\<open>open_serial_port\<close>: \<^verbatim>\<open>baud_rate\<close> starts as
  \<^verbatim>\<open>B9600\<close>, the case labels are tried, and there is no default label.
\<close>

definition baud_rate :: "platform \<Rightarrow> helium_baud \<Rightarrow> c_int \<Rightarrow> speed_t" where
  "baud_rate P E baud =
     (let S = speeds P in
      if baud = helium_baud_b9600 E then B9600 S
      else if baud = helium_baud_b14400 E \<or> baud = helium_baud_b19200 E then B19200 S
      else if baud = helium_baud_b38400 E then B38400 S
      else if baud = helium_baud_b57600 E then B57600 S
      else if baud = helium_baud_b115200 E then B115200 S
      else B9600 S)"

definition open_serial_port ::
  "platform \<Rightarrow> helium_baud \<Rightarrow> 'w os \<Rightarrow> string \<Rightarrow> c_int \<Rightarrow> 'w run \<Rightarrow> c_int \<times> 'w run" where
  "open_serial_port P E os portname baud s =
     (let M = misc P in
      case sys_open os portname (O_RDWR M OR O_NOCTTY M OR O_NONBLOCK M) s of
        (fd, s1) \<Rightarrow>
          if sint fd < 0 then (- 1, s1)
          else case sys_ioctl os fd (TIOCEXCL M) s1 of
            (r, s2) \<Rightarrow>
              if sint r < 0 then (- 1, s2)
              else case sys_fcntl os fd (F_SETFL M) 0 s2 of
                (r, s3) \<Rightarrow>
                  if sint r < 0 then (- 1, s3)
                  else case set_interface_attribs P os fd (baud_rate P E baud) s3 of
                    (r, s4) \<Rightarrow> if r \<noteq> 0 then (- 1, s4) else (fd, s4))"

definition close_serial_port :: "'w os \<Rightarrow> c_int \<Rightarrow> 'w run \<Rightarrow> 'w run" where
  "close_serial_port os fd s = snd (sys_close os fd s)"

subsection \<open>Properties of a run\<close>

text \<open>The flags \<^verbatim>\<open>open_serial_port\<close> opens the device node with.\<close>

definition open_flags :: "platform \<Rightarrow> c_int" where
  "open_flags P = O_RDWR (misc P) OR O_NOCTTY (misc P) OR O_NONBLOCK (misc P)"

text \<open>The masks \<^verbatim>\<open>_set_interface_attribs\<close> names, one per mode word.\<close>

definition cflag_named :: "platform \<Rightarrow> tcflag_t" where
  "cflag_named P =
     (let C = cflags P
      in CLOCAL C OR CREAD C OR CSIZE C OR CS8 C OR PARENB C OR CSTOPB C OR CRTSCTS C)"

definition iflag_named :: "platform \<Rightarrow> tcflag_t" where
  "iflag_named P =
     (let I = iflags P
      in IGNBRK I OR BRKINT I OR PARMRK I OR ISTRIP I OR INLCR I OR IGNCR I OR ICRNL I
         OR IXON I)"

definition lflag_named :: "platform \<Rightarrow> tcflag_t" where
  "lflag_named P =
     (let L = lflags P in ECHO L OR ECHONL L OR ICANON L OR ISIG L OR IEXTEN L)"



text \<open>
  \<open>tty'\<close> agrees with \<open>tty\<close> on every bit of the four mode words outside the named
  masks, on the line discipline, and on every control character other than
  \<^verbatim>\<open>VMIN\<close> and \<^verbatim>\<open>VTIME\<close>.
\<close>

definition same_outside_named :: "platform \<Rightarrow> termios \<Rightarrow> termios \<Rightarrow> bool" where
  "same_outside_named P tty tty' =
     (c_cflag tty' AND NOT (cflag_named P) = c_cflag tty AND NOT (cflag_named P)
      \<and> c_iflag tty' AND NOT (iflag_named P) = c_iflag tty AND NOT (iflag_named P)
      \<and> c_lflag tty' AND NOT (lflag_named P) = c_lflag tty AND NOT (lflag_named P)
      \<and> c_oflag tty' AND NOT (OPOST (misc P)) = c_oflag tty AND NOT (OPOST (misc P))
      \<and> c_line tty' = c_line tty
      \<and> length (c_cc tty') = length (c_cc tty)
      \<and> list_all (\<lambda>i. i = VMIN (misc P) \<or> i = VTIME (misc P) \<or> c_cc tty' ! i = c_cc tty ! i)
           [0 ..< length (c_cc tty)])"

text \<open>
  The bits of \<^verbatim>\<open>c_cflag\<close> that the library writes for a speed: the speed bits and
  the bits of the speed constant it puts there.
\<close>

definition cflag_speed :: "platform \<Rightarrow> speed_t \<Rightarrow> tcflag_t" where
  "cflag_speed P speed = CBAUD (bauds P) OR CBAUDEX (bauds P) OR speed"

text \<open>
  \<open>tty'\<close> agrees with \<open>tty\<close> outside the named masks and outside what the library
  writes for \<open>speed\<close>: the two speed fields, the speed bits of \<^verbatim>\<open>c_cflag\<close> and the
  bit \<^verbatim>\<open>IBAUD0\<close> of \<^verbatim>\<open>c_iflag\<close>.
\<close>

definition same_outside_named_and_speed ::
  "platform \<Rightarrow> speed_t \<Rightarrow> termios \<Rightarrow> termios \<Rightarrow> bool" where
  "same_outside_named_and_speed P speed tty tty' =
     (c_cflag tty' AND NOT (cflag_named P OR cflag_speed P speed)
        = c_cflag tty AND NOT (cflag_named P OR cflag_speed P speed)
      \<and> c_iflag tty' AND NOT (iflag_named P OR IBAUD0 (bauds P))
        = c_iflag tty AND NOT (iflag_named P OR IBAUD0 (bauds P))
      \<and> c_lflag tty' AND NOT (lflag_named P) = c_lflag tty AND NOT (lflag_named P)
      \<and> c_oflag tty' AND NOT (OPOST (misc P)) = c_oflag tty AND NOT (OPOST (misc P))
      \<and> c_line tty' = c_line tty
      \<and> length (c_cc tty') = length (c_cc tty)
      \<and> list_all (\<lambda>i. i = VMIN (misc P) \<or> i = VTIME (misc P) \<or> c_cc tty' ! i = c_cc tty ! i)
           [0 ..< length (c_cc tty)])"

text \<open>
  What the headers promise about the speed constants: the library accepts each of the
  five that the source uses.
\<close>

definition speeds_ok :: "platform \<Rightarrow> bool" where
  "speeds_ok P =
     (let S = speeds P
      in list_all (speed_accepted P) [B9600 S, B19200 S, B38400 S, B57600 S, B115200 S])"

text \<open>
  The speed bits of \<^verbatim>\<open>c_cflag\<close> hold the five speed constants and lie apart from
  the flags that \<^verbatim>\<open>_set_interface_attribs\<close> names.
\<close>

definition speed_bits_ok :: "platform \<Rightarrow> bool" where
  "speed_bits_ok P =
     (let S = speeds P; B = bauds P
      in (CBAUD B OR CBAUDEX B) AND cflag_named P = 0
         \<and> list_all (\<lambda>speed. speed AND NOT (CBAUD B OR CBAUDEX B) = 0)
              [B9600 S, B19200 S, B38400 S, B57600 S, B115200 S])"

text \<open>
  The words of the spec about selectors the platform has no speed for: "the nearest
  supported faster rate". The supported selectors are the enumerators other than the
  legacy one; selectors are compared as the signed integers they are.
  \<open>nearest_supported_faster E v\<close> is the lowest supported selector above \<open>v\<close>, if
  there is one.
\<close>

definition supported :: "helium_baud \<Rightarrow> c_int list" where
  "supported E =
     [helium_baud_b9600 E, helium_baud_b19200 E, helium_baud_b38400 E,
      helium_baud_b57600 E, helium_baud_b115200 E]"

definition nearest_supported_faster :: "helium_baud \<Rightarrow> c_int \<Rightarrow> c_int option" where
  "nearest_supported_faster E v =
     (case filter (\<lambda>e. sint v < sint e) (supported E) of
        [] \<Rightarrow> None
      | e # es \<Rightarrow> Some (foldr (\<lambda>a b. if sint a \<le> sint b then a else b) es e))"

subsection \<open>A concrete platform and a simulated device\<close>

text \<open>
  The values the macros have in the generic Linux headers, and an enumeration whose
  enumerators are numbered from 0 in the order of their speeds.
\<close>

definition linux_headers :: platform where
  "linux_headers =
     \<lparr>speeds = \<lparr>B9600 = 13, B19200 = 14, B38400 = 15, B57600 = 4097, B115200 = 4098\<rparr>,
      cflags = \<lparr>CLOCAL = 2048, CREAD = 128, CSIZE = 48, CS8 = 48, PARENB = 256,
                CSTOPB = 64, CRTSCTS = 2147483648\<rparr>,
      iflags = \<lparr>IGNBRK = 1, BRKINT = 2, PARMRK = 8, ISTRIP = 32, INLCR = 64, IGNCR = 128,
                ICRNL = 256, IXON = 1024\<rparr>,
      lflags = \<lparr>ECHO = 8, ECHONL = 64, ICANON = 2, ISIG = 1, IEXTEN = 32768\<rparr>,
      misc = \<lparr>OPOST = 1, VMIN = 6, VTIME = 5, TCSANOW = 0, O_RDWR = 2, O_NOCTTY = 256,
              O_NONBLOCK = 2048, F_SETFL = 4, TIOCEXCL = 21516, POLLIN = 1\<rparr>,
      bauds = \<lparr>CBAUD = 4111, CBAUDEX = 4096, IBAUD0 = 2147483648, MAX_BAUD = 4111\<rparr>\<rparr>"

definition numbered_from_0 :: helium_baud where
  "numbered_from_0 =
     \<lparr>helium_baud_b9600 = 0, helium_baud_b14400 = 1, helium_baud_b19200 = 2,
      helium_baud_b38400 = 3, helium_baud_b57600 = 4, helium_baud_b115200 = 5\<rparr>"

text \<open>An enumeration whose enumerators have their nominal rates as values.\<close>

definition numbered_by_rate :: helium_baud where
  "numbered_by_rate =
     \<lparr>helium_baud_b9600 = 9600, helium_baud_b14400 = 14400, helium_baud_b19200 = 19200,
      helium_baud_b38400 = 38400, helium_baud_b57600 = 57600,
      helium_baud_b115200 = 115200\<rparr>"

text \<open>
  A simulated serial device: one device node, which may be claimed by another process,
  may not be a terminal and may refuse new attributes; its current attributes, the
  descriptors open on it, the bytes it has received for the host and the bytes the host
  has sent, and the time slept.
\<close>

record device =
  dev_node :: string
  dev_busy :: bool
  dev_is_tty :: bool
  dev_refuses :: bool
  dev_attrs :: termios
  dev_fds :: "c_int list"
  dev_rx :: "uint8_t list"
  dev_tx :: "uint8_t list"
  dev_slept :: nat

definition uart :: "device os" where
  "uart =
     \<lparr>os_open = (\<lambda>path flags w.
        if path = dev_node w then (3, w\<lparr>dev_fds := 3 # dev_fds w\<rparr>) else (- 1, w)),
      os_ioctl = (\<lambda>fd req w.
        (if fd \<in> set (dev_fds w) \<and> \<not> dev_busy w then 0 else - 1, w)),
      os_fcntl = (\<lambda>fd cmd arg w. (if fd \<in> set (dev_fds w) then 0 else - 1, w)),
      os_tcgetattr = (\<lambda>fd w.
        ((if fd \<in> set (dev_fds w) \<and> dev_is_tty w then 0 else - 1, dev_attrs w), w)),
      os_tcsetattr = (\<lambda>fd actions tty w.
        if fd \<in> set (dev_fds w) \<and> dev_is_tty w \<and> \<not> dev_refuses w
        then (0, w\<lparr>dev_attrs := tty\<rparr>) else (- 1, w)),
      os_poll = (\<lambda>p timeout w.
        if pfd p \<in> set (dev_fds w) then ((1, if dev_rx w = [] then 16 else 1), w)
        else ((- 1, 0), w)),
      os_read = (\<lambda>fd count w.
        if fd \<in> set (dev_fds w)
        then (Inr (take count (dev_rx w)), w\<lparr>dev_rx := drop count (dev_rx w)\<rparr>)
        else (Inl 9, w)),
      os_write = (\<lambda>fd buf w.
        if fd \<in> set (dev_fds w) then (Inr (length buf), w\<lparr>dev_tx := dev_tx w @ buf\<rparr>)
        else (Inl 9, w)),
      os_usleep = (\<lambda>us w. w\<lparr>dev_slept := dev_slept w + unat us\<rparr>),
      os_close = (\<lambda>fd w.
        if fd \<in> set (dev_fds w) then (0, w\<lparr>dev_fds := removeAll fd (dev_fds w)\<rparr>)
        else (- 1, w))\<rparr>"

text \<open>
  The attributes of a terminal in its usual cooked mode at 38400 baud (the speed bits of
  \<^verbatim>\<open>c_cflag\<close> hold 15, the constant of 38400), with parity and two stop bits
  switched on, and a device in that state.
\<close>

definition cooked :: termios where
  "cooked =
     \<lparr>c_iflag = 1280, c_oflag = 5, c_cflag = 511, c_lflag = 35387, c_line = 0,
      c_cc = [3, 28, 127, 21, 4, 0, 1, 0, 17, 19, 26, 0, 18, 15, 23, 22, 0, 0, 0],
      c_ispeed = 15, c_ospeed = 15\<rparr>"

definition ttyUSB0 :: device where
  "ttyUSB0 =
     \<lparr>dev_node = ''/dev/ttyUSB0'', dev_busy = False, dev_is_tty = True,
      dev_refuses = False, dev_attrs = cooked, dev_fds = [], dev_rx = [65], dev_tx = [],
      dev_slept = 0\<rparr>"

section \<open>Verification\<close>

subsection \<open>What the two library calls do to the attributes\<close>

lemma speed_set_same:
  "c_cc (cfsetispeed P (cfsetospeed P tty speed) speed) = c_cc tty"
  "c_line (cfsetispeed P (cfsetospeed P tty speed) speed) = c_line tty"
  "c_oflag (cfsetispeed P (cfsetospeed P tty speed) speed) = c_oflag tty"
  "c_lflag (cfsetispeed P (cfsetospeed P tty speed) speed) = c_lflag tty"
  by (simp_all add: cfsetospeed_def cfsetispeed_def Let_def)

lemma speed_set_speeds:
  assumes "speed_accepted P speed"
  shows "c_ospeed (cfsetispeed P (cfsetospeed P tty speed) speed) = speed"
    and "c_ispeed (cfsetispeed P (cfsetospeed P tty speed) speed) = speed"
    and "c_cflag (cfsetispeed P (cfsetospeed P tty speed) speed)
         = (c_cflag tty AND NOT (CBAUD (bauds P) OR CBAUDEX (bauds P))) OR speed"
proof -
  show "c_ospeed (cfsetispeed P (cfsetospeed P tty speed) speed) = speed"
    and "c_ispeed (cfsetispeed P (cfsetospeed P tty speed) speed) = speed"
    using assms by (simp_all add: cfsetospeed_def cfsetispeed_def Let_def)
  show "c_cflag (cfsetispeed P (cfsetospeed P tty speed) speed)
         = (c_cflag tty AND NOT (CBAUD (bauds P) OR CBAUDEX (bauds P))) OR speed"
    using assms
    by (intro bit_eqI) (auto simp: cfsetospeed_def cfsetispeed_def Let_def bit_simps)
qed

lemma speed_set_cflag_bit:
  assumes "\<not> bit (cflag_speed P speed) n"
  shows "bit (c_cflag (cfsetispeed P (cfsetospeed P tty speed) speed)) n = bit (c_cflag tty) n"
  using assms
  by (auto simp: cfsetospeed_def cfsetispeed_def cflag_speed_def Let_def bit_simps
      dest: bit_imp_le_length)

lemma speed_set_iflag_bit:
  assumes "\<not> bit (IBAUD0 (bauds P)) n"
  shows "bit (c_iflag (cfsetispeed P (cfsetospeed P tty speed) speed)) n = bit (c_iflag tty) n"
  using assms
  by (auto simp: cfsetospeed_def cfsetispeed_def Let_def bit_simps dest: bit_imp_le_length)

subsection \<open>What \<^verbatim>\<open>_set_interface_attribs\<close> does to the attributes\<close>

lemma configure_fields:
  "c_ospeed (configure P tty speed) = c_ospeed (cfsetispeed P (cfsetospeed P tty speed) speed)"
  "c_ispeed (configure P tty speed) = c_ispeed (cfsetispeed P (cfsetospeed P tty speed) speed)"
  "c_line (configure P tty speed) = c_line tty"
  "c_cc (configure P tty speed) = (c_cc tty)[VMIN (misc P) := 1, VTIME (misc P) := 1]"
  "c_oflag (configure P tty speed) = c_oflag tty AND NOT (OPOST (misc P))"
  "c_lflag (configure P tty speed) = c_lflag tty AND NOT (lflag_named P)"
  "c_iflag (configure P tty speed)
     = c_iflag (cfsetispeed P (cfsetospeed P tty speed) speed) AND NOT (iflag_named P)"
  "c_cflag (configure P tty speed) =
     (((((c_cflag (cfsetispeed P (cfsetospeed P tty speed) speed)
          OR (CLOCAL (cflags P) OR CREAD (cflags P))) AND NOT (CSIZE (cflags P)))
         OR CS8 (cflags P)) AND NOT (PARENB (cflags P))) AND NOT (CSTOPB (cflags P)))
       AND NOT (CRTSCTS (cflags P))"
  by (simp_all add: configure_def Let_def lflag_named_def iflag_named_def speed_set_same)

lemma cleared_twice:
  fixes c :: tcflag_t
  shows "(c AND NOT m) AND NOT m = c AND NOT m"
  by (rule bit_eqI) (auto simp: bit_simps)


lemma configure_cflag_frame:
  "c_cflag (configure P tty speed) AND NOT (cflag_named P OR cflag_speed P speed)
   = c_cflag tty AND NOT (cflag_named P OR cflag_speed P speed)"
proof (rule bit_eqI)
  fix n
  assume n: "possible_bit TYPE(tcflag_t) n"
  show "bit (c_cflag (configure P tty speed) AND NOT (cflag_named P OR cflag_speed P speed)) n
        = bit (c_cflag tty AND NOT (cflag_named P OR cflag_speed P speed)) n"
  proof (cases "bit (cflag_speed P speed) n")
    case True
    then show ?thesis by (simp add: bit_simps)
  next
    case False
    from speed_set_cflag_bit [OF False]
    show ?thesis
      unfolding configure_fields cflag_named_def Let_def by (auto simp: bit_simps)
  qed
qed

lemma configure_iflag_frame:
  "c_iflag (configure P tty speed) AND NOT (iflag_named P OR IBAUD0 (bauds P))
   = c_iflag tty AND NOT (iflag_named P OR IBAUD0 (bauds P))"
proof (rule bit_eqI)
  fix n
  assume n: "possible_bit TYPE(tcflag_t) n"
  show "bit (c_iflag (configure P tty speed) AND NOT (iflag_named P OR IBAUD0 (bauds P))) n
        = bit (c_iflag tty AND NOT (iflag_named P OR IBAUD0 (bauds P))) n"
  proof (cases "bit (IBAUD0 (bauds P)) n")
    case True
    then show ?thesis by (simp add: bit_simps)
  next
    case False
    from speed_set_iflag_bit [OF False]
    show ?thesis
      unfolding configure_fields by (auto simp: bit_simps)
  qed
qed

lemma nth_updated_twice:
  assumes "i \<noteq> a" and "i \<noteq> b"
  shows "xs[a := x, b := y] ! i = xs ! i"
proof -
  have "xs[a := x, b := y] ! i = xs[a := x] ! i"
    using assms(2) by (intro nth_list_update_neq) simp
  also have "\<dots> = xs ! i"
    using assms(1) by (intro nth_list_update_neq) simp
  finally show ?thesis .
qed

lemma configure_cc_frame:
  "list_all (\<lambda>i. i = VMIN (misc P) \<or> i = VTIME (misc P)
      \<or> c_cc (configure P tty speed) ! i = c_cc tty ! i) [0 ..< length (c_cc tty)]"
proof -
  have "i = VMIN (misc P) \<or> i = VTIME (misc P)
      \<or> c_cc (configure P tty speed) ! i = c_cc tty ! i" for i
  proof (cases "i = VMIN (misc P) \<or> i = VTIME (misc P)")
    case True
    then show ?thesis by blast
  next
    case False
    then have "i \<noteq> VMIN (misc P)" and "i \<noteq> VTIME (misc P)"
      by simp_all
    then have "c_cc (configure P tty speed) ! i = c_cc tty ! i"
      unfolding configure_fields by (rule nth_updated_twice)
    then show ?thesis by simp
  qed
  then show ?thesis by (simp add: list_all_iff)
qed

lemma configure_frame: "same_outside_named_and_speed P speed tty (configure P tty speed)"
  unfolding same_outside_named_and_speed_def
  using configure_cflag_frame [of P tty speed] configure_iflag_frame [of P tty speed]
    configure_cc_frame [of P tty speed]
  by (simp add: configure_fields cleared_twice)

lemma bit_of_zero:
  fixes a :: tcflag_t
  assumes "a AND b = 0"
  shows "\<not> (bit a n \<and> bit b n)"
proof -
  have "\<not> bit (a AND b) n" using assms by simp
  then show ?thesis by (simp add: bit_simps)
qed





subsection \<open>The resolved speed in the committed attributes\<close>

lemma baud_rate_cases:
  "baud_rate P E baud \<in> set [B9600 (speeds P), B19200 (speeds P), B38400 (speeds P),
     B57600 (speeds P), B115200 (speeds P)]"
  by (simp add: baud_rate_def Let_def)

lemma baud_rate_accepted:
  assumes "speeds_ok P"
  shows "speed_accepted P (baud_rate P E baud)"
  using assms baud_rate_cases [of P E baud]
  by (auto simp: speeds_ok_def Let_def)

lemma configure_speeds:
  assumes "speeds_ok P"
  shows "c_ospeed (configure P tty (baud_rate P E baud)) = baud_rate P E baud"
    and "c_ispeed (configure P tty (baud_rate P E baud)) = baud_rate P E baud"
  by (simp_all add: configure_fields speed_set_speeds [OF baud_rate_accepted [OF assms]])

lemma configure_cflag_speed:
  assumes "speeds_ok P" and "speed_bits_ok P"
  shows "c_cflag (configure P tty (baud_rate P E baud))
           AND (CBAUD (bauds P) OR CBAUDEX (bauds P))
         = baud_rate P E baud"
proof (rule bit_eqI)
  fix n
  assume n: "possible_bit TYPE(tcflag_t) n"
  let ?s = "baud_rate P E baud"
  let ?m = "CBAUD (bauds P) OR CBAUDEX (bauds P)"
  have "?s AND NOT ?m = 0"
    using assms(2) baud_rate_cases [of P E baud]
    by (auto simp: speed_bits_ok_def Let_def)
  then have a: "\<not> (bit ?s n \<and> bit (NOT ?m) n)"
    by (rule bit_of_zero)
  have "?m AND cflag_named P = 0"
    using assms(2) by (simp add: speed_bits_ok_def Let_def)
  then have b: "\<not> (bit ?m n \<and> bit (cflag_named P) n)"
    by (rule bit_of_zero)
  show "bit (c_cflag (configure P tty ?s) AND ?m) n = bit ?s n"
    using a b n
    unfolding configure_fields speed_set_speeds(3) [OF baud_rate_accepted [OF assms(1)]]
      cflag_named_def Let_def
    by (auto simp: bit_simps dest: bit_imp_le_length)
qed

subsection \<open>The calls of \<^verbatim>\<open>open_serial_port\<close>\<close>

text \<open>
  A run of \<^verbatim>\<open>open_serial_port\<close> stops after the first call that fails, and
  otherwise makes five calls: \<^verbatim>\<open>open\<close>, \<^verbatim>\<open>ioctl\<close>, \<^verbatim>\<open>fcntl\<close>,
  \<^verbatim>\<open>tcgetattr\<close> and \<^verbatim>\<open>tcsetattr\<close>.
\<close>

lemma open_serial_port_log:
  assumes "open_serial_port P E os portname baud (w, []) = (r, (w', tr))"
  shows
    "(\<exists>fd. tr = [Sys_open portname (open_flags P) fd] \<and> sint fd < 0 \<and> r = - 1) \<or>
     (\<exists>fd r1. tr = [Sys_open portname (open_flags P) fd, Sys_ioctl fd (TIOCEXCL (misc P)) r1]
        \<and> 0 \<le> sint fd \<and> sint r1 < 0 \<and> r = - 1) \<or>
     (\<exists>fd r1 r2. tr = [Sys_open portname (open_flags P) fd, Sys_ioctl fd (TIOCEXCL (misc P)) r1,
          Sys_fcntl fd (F_SETFL (misc P)) 0 r2]
        \<and> 0 \<le> sint fd \<and> 0 \<le> sint r1 \<and> sint r2 < 0 \<and> r = - 1) \<or>
     (\<exists>fd r1 r2 r3 tty. tr = [Sys_open portname (open_flags P) fd, Sys_ioctl fd (TIOCEXCL (misc P)) r1,
          Sys_fcntl fd (F_SETFL (misc P)) 0 r2, Sys_tcgetattr fd r3 tty]
        \<and> 0 \<le> sint fd \<and> 0 \<le> sint r1 \<and> 0 \<le> sint r2 \<and> sint r3 < 0 \<and> r = - 1) \<or>
     (\<exists>fd r1 r2 r3 tty r4. tr = [Sys_open portname (open_flags P) fd, Sys_ioctl fd (TIOCEXCL (misc P)) r1,
          Sys_fcntl fd (F_SETFL (misc P)) 0 r2, Sys_tcgetattr fd r3 tty,
          Sys_tcsetattr fd (TCSANOW (misc P)) (configure P tty (baud_rate P E baud)) r4]
        \<and> 0 \<le> sint fd \<and> 0 \<le> sint r1 \<and> 0 \<le> sint r2 \<and> 0 \<le> sint r3
        \<and> (r4 \<noteq> 0 \<longrightarrow> r = - 1) \<and> (r4 = 0 \<longrightarrow> r = fd))"
  using assms
  unfolding open_serial_port_def set_interface_attribs_def sys_open_def sys_ioctl_def
    sys_fcntl_def sys_tcgetattr_def sys_tcsetattr_def open_flags_def Let_def
  by (auto split: prod.splits if_splits)

subsection \<open>Runs on the simulated device\<close>

lemmas uart_simps =
  open_serial_port_def set_interface_attribs_def sys_open_def sys_ioctl_def
  sys_fcntl_def sys_tcgetattr_def sys_tcsetattr_def uart_def ttyUSB0_def
  linux_headers_def numbered_from_0_def baud_rate_def configure_def cfsetospeed_def
  cfsetispeed_def speed_accepted_def cooked_def Let_def

lemma uart_opens_at_14400:
  "open_serial_port linux_headers numbered_from_0 uart ''/dev/ttyUSB0'' 1 (ttyUSB0, [])
   = (3, (ttyUSB0\<lparr>dev_attrs := configure linux_headers cooked 14, dev_fds := [3]\<rparr>,
       [Sys_open ''/dev/ttyUSB0'' 2306 3, Sys_ioctl 3 21516 0, Sys_fcntl 3 4 0 0,
        Sys_tcgetattr 3 0 cooked, Sys_tcsetattr 3 0 (configure linux_headers cooked 14) 0]))"
  by (simp add: uart_simps)

lemma uart_opens_at_115200:
  "open_serial_port linux_headers numbered_from_0 uart ''/dev/ttyUSB0'' 5 (ttyUSB0, [])
   = (3, (ttyUSB0\<lparr>dev_attrs := configure linux_headers cooked 4098, dev_fds := [3]\<rparr>,
       [Sys_open ''/dev/ttyUSB0'' 2306 3, Sys_ioctl 3 21516 0, Sys_fcntl 3 4 0 0,
        Sys_tcgetattr 3 0 cooked, Sys_tcsetattr 3 0 (configure linux_headers cooked 4098) 0]))"
  by (simp add: uart_simps)







lemma linux_speeds_ok: "speeds_ok linux_headers"
  by (simp add: speeds_ok_def speed_accepted_def linux_headers_def)

lemma linux_speed_bits_ok: "speed_bits_ok linux_headers"
  by (simp add: speed_bits_ok_def cflag_named_def linux_headers_def)

lemma committed_at_14400:
  "configure linux_headers cooked 14
   = \<lparr>c_iflag = 0, c_oflag = 4, c_cflag = 2238, c_lflag = 2608, c_line = 0,
      c_cc = [3, 28, 127, 21, 4, 1, 1, 0, 17, 19, 26, 0, 18, 15, 23, 22, 0, 0, 0],
      c_ispeed = 14, c_ospeed = 14\<rparr>"
  by (simp add: configure_def cfsetospeed_def cfsetispeed_def speed_accepted_def
      linux_headers_def cooked_def)

lemma committed_at_115200:
  "configure linux_headers cooked 4098
   = \<lparr>c_iflag = 0, c_oflag = 4, c_cflag = 6322, c_lflag = 2608, c_line = 0,
      c_cc = [3, 28, 127, 21, 4, 1, 1, 0, 17, 19, 26, 0, 18, 15, 23, 22, 0, 0, 0],
      c_ispeed = 4098, c_ospeed = 4098\<rparr>"
  by (simp add: configure_def cfsetospeed_def cfsetispeed_def speed_accepted_def
      linux_headers_def cooked_def)

subsection \<open>The byte primitives, call by call\<close>




subsection \<open>The baud selector\<close>

text \<open>
  C1. Each of the selectors 9600, 19200, 38400, 57600 and 115200 resolves to the line
  speed constant of its own nominal speed, and the legacy selector 14400 resolves to the
  constant of 19200. A run of \<^verbatim>\<open>open_serial_port\<close> returns -1 only when one of
  its calls has failed. When \<^verbatim>\<open>open_serial_port\<close> succeeds it has committed the
  attributes exactly once, on the returned descriptor, and the committed attributes carry
  the resolved constant: it is their input and their output speed, and, where the speed
  bits of \<^verbatim>\<open>c_cflag\<close> hold the speed constants, the value of those bits. No
  run commits any other speed. The enumerators are distinct, as the case labels of a
  \<^verbatim>\<open>switch\<close> have to be, and the library accepts the five speed constants.
\<close>

theorem open_serial_port_baud_rate:
  assumes "distinct (enumerators E)"
    and "speeds_ok P"
    and "open_serial_port P E os portname baud (w, []) = (r, (w', tr))"
  shows "baud_rate P E (helium_baud_b9600 E) = B9600 (speeds P)
       \<and> baud_rate P E (helium_baud_b19200 E) = B19200 (speeds P)
       \<and> baud_rate P E (helium_baud_b38400 E) = B38400 (speeds P)
       \<and> baud_rate P E (helium_baud_b57600 E) = B57600 (speeds P)
       \<and> baud_rate P E (helium_baud_b115200 E) = B115200 (speeds P)
       \<and> baud_rate P E (helium_baud_b14400 E) = B19200 (speeds P)
       \<and> (\<forall>fd actions tty r'. Sys_tcsetattr fd actions tty r' \<in> set tr \<longrightarrow>
            c_ospeed tty = baud_rate P E baud \<and> c_ispeed tty = baud_rate P E baud)
       \<and> (r \<noteq> - 1 \<longrightarrow>
            (\<exists>tty. filter is_tcsetattr tr = [Sys_tcsetattr r (TCSANOW (misc P)) tty 0]
               \<and> c_ospeed tty = baud_rate P E baud
               \<and> c_ispeed tty = baud_rate P E baud
               \<and> (speed_bits_ok P \<longrightarrow>
                    c_cflag tty AND (CBAUD (bauds P) OR CBAUDEX (bauds P))
                    = baud_rate P E baud)))
       \<and> (r = - 1 \<longrightarrow>
            (\<exists>c \<in> set tr. sys_ret c < 0 \<or> is_tcsetattr c \<and> sys_ret c \<noteq> 0))"
proof -
  have sw: "baud_rate P E (helium_baud_b9600 E) = B9600 (speeds P)"
    "baud_rate P E (helium_baud_b19200 E) = B19200 (speeds P)"
    "baud_rate P E (helium_baud_b38400 E) = B38400 (speeds P)"
    "baud_rate P E (helium_baud_b57600 E) = B57600 (speeds P)"
    "baud_rate P E (helium_baud_b115200 E) = B115200 (speeds P)"
    "baud_rate P E (helium_baud_b14400 E) = B19200 (speeds P)"
    using assms(1) by (auto simp: baud_rate_def enumerators_def Let_def)
  have every: "\<forall>fd actions tty r'. Sys_tcsetattr fd actions tty r' \<in> set tr \<longrightarrow>
            c_ospeed tty = baud_rate P E baud \<and> c_ispeed tty = baud_rate P E baud"
    using open_serial_port_log [OF assms(3)] by (auto simp: configure_speeds [OF assms(2)])
  have once: "r \<noteq> - 1 \<longrightarrow>
            (\<exists>tty. filter is_tcsetattr tr = [Sys_tcsetattr r (TCSANOW (misc P)) tty 0]
               \<and> c_ospeed tty = baud_rate P E baud
               \<and> c_ispeed tty = baud_rate P E baud
               \<and> (speed_bits_ok P \<longrightarrow>
                    c_cflag tty AND (CBAUD (bauds P) OR CBAUDEX (bauds P))
                    = baud_rate P E baud))"
    using open_serial_port_log [OF assms(3)] configure_cflag_speed [OF assms(2)]
    by (elim disjE exE conjE) (auto simp: configure_speeds [OF assms(2)])
  have failed: "r = - 1 \<longrightarrow>
            (\<exists>c \<in> set tr. sys_ret c < 0 \<or> is_tcsetattr c \<and> sys_ret c \<noteq> 0)"
    using open_serial_port_log [OF assms(3)]
    by (elim disjE exE conjE) (auto simp: signed_eq_0_iff)
  from sw every once failed show ?thesis by simp
qed

theorem open_serial_port_baud_rate_witness:
  "distinct (enumerators numbered_from_0)
   \<and> speeds_ok linux_headers
   \<and> speed_bits_ok linux_headers
   \<and> open_serial_port linux_headers numbered_from_0 uart ''/dev/ttyUSB0'' 1 (ttyUSB0, [])
     = (3, (ttyUSB0\<lparr>dev_attrs := configure linux_headers cooked 14, dev_fds := [3]\<rparr>,
         [Sys_open ''/dev/ttyUSB0'' 2306 3, Sys_ioctl 3 21516 0, Sys_fcntl 3 4 0 0,
          Sys_tcgetattr 3 0 cooked, Sys_tcsetattr 3 0 (configure linux_headers cooked 14) 0]))
   \<and> baud_rate linux_headers numbered_from_0 0 = 13
   \<and> baud_rate linux_headers numbered_from_0 2 = 14
   \<and> baud_rate linux_headers numbered_from_0 3 = 15
   \<and> baud_rate linux_headers numbered_from_0 4 = 4097
   \<and> baud_rate linux_headers numbered_from_0 5 = 4098
   \<and> baud_rate linux_headers numbered_from_0 1 = 14
   \<and> c_ospeed (configure linux_headers cooked 14) = 14
   \<and> c_ispeed (configure linux_headers cooked 14) = 14
   \<and> c_cflag (configure linux_headers cooked 14) AND 4111 = 14"
proof -
  have d: "distinct (enumerators numbered_from_0)"
    by (simp add: enumerators_def numbered_from_0_def)
  have b: "baud_rate linux_headers numbered_from_0 1 = 14"
    by (simp add: baud_rate_def numbered_from_0_def linux_headers_def)
  from open_serial_port_baud_rate [OF d linux_speeds_ok uart_opens_at_14400]
  have "baud_rate linux_headers numbered_from_0 0 = 13
      \<and> baud_rate linux_headers numbered_from_0 2 = 14
      \<and> baud_rate linux_headers numbered_from_0 3 = 15
      \<and> baud_rate linux_headers numbered_from_0 4 = 4097
      \<and> baud_rate linux_headers numbered_from_0 5 = 4098
      \<and> baud_rate linux_headers numbered_from_0 1 = 14
      \<and> c_ospeed (configure linux_headers cooked 14) = 14
      \<and> c_ispeed (configure linux_headers cooked 14) = 14
      \<and> c_cflag (configure linux_headers cooked 14) AND 4111 = 14"
    using linux_speed_bits_ok unfolding b
    by (simp add: numbered_from_0_def linux_headers_def)
  with d linux_speeds_ok linux_speed_bits_ok uart_opens_at_14400 show ?thesis by simp
qed

text \<open>
  C2. A selector that is none of the six enumerators does not make
  \<^verbatim>\<open>open_serial_port\<close> fail, but it is not resolved to the nearest supported faster
  rate either. The \<^verbatim>\<open>switch\<close> has no default label, so such a selector leaves
  \<^verbatim>\<open>baud_rate\<close> at its initial value: it resolves to the constant of 9600, and
  \<^verbatim>\<open>open_serial_port\<close> does for it exactly what it does for the selector 9600.
\<close>

theorem open_serial_port_unlisted_selector:
  assumes "baud \<notin> set (enumerators E)"
  shows "baud_rate P E baud = B9600 (speeds P)
       \<and> open_serial_port P E os portname baud s
         = open_serial_port P E os portname (helium_baud_b9600 E) s"
proof -
  have a: "baud_rate P E baud = B9600 (speeds P)"
    using assms by (simp add: baud_rate_def enumerators_def Let_def)
  have b: "baud_rate P E (helium_baud_b9600 E) = B9600 (speeds P)"
    by (simp add: baud_rate_def Let_def)
  show ?thesis unfolding open_serial_port_def a b by simp
qed

theorem open_serial_port_unlisted_selector_witness:
  "6 \<notin> set (enumerators numbered_from_0)
   \<and> baud_rate linux_headers numbered_from_0 6 = 13
   \<and> open_serial_port linux_headers numbered_from_0 uart ''/dev/ttyUSB0'' 6 (ttyUSB0, [])
     = open_serial_port linux_headers numbered_from_0 uart ''/dev/ttyUSB0'' 0 (ttyUSB0, [])"
proof -
  have u: "6 \<notin> set (enumerators numbered_from_0)"
    by (simp add: enumerators_def numbered_from_0_def)
  from open_serial_port_unlisted_selector [OF u, of linux_headers uart "''/dev/ttyUSB0''"
      "(ttyUSB0, [])"] u
  show ?thesis by (simp add: numbered_from_0_def linux_headers_def)
qed

text \<open>
  The selector 6 is above every enumerator numbered from 0, so no supported selector is
  faster, and it resolves to the constant of 9600. With the enumerators numbered by their
  rates, the selector 28800 has 38400 as its nearest supported faster rate and resolves
  to the constant of 9600 all the same.
\<close>

theorem nearest_supported_faster_counterexample:
  "6 \<notin> set (enumerators numbered_from_0)
   \<and> nearest_supported_faster numbered_from_0 6 = None
   \<and> baud_rate linux_headers numbered_from_0 6 = B9600 (speeds linux_headers)
   \<and> 28800 \<notin> set (enumerators numbered_by_rate)
   \<and> nearest_supported_faster numbered_by_rate 28800 = Some (helium_baud_b38400 numbered_by_rate)
   \<and> baud_rate linux_headers numbered_by_rate (helium_baud_b38400 numbered_by_rate)
       = B38400 (speeds linux_headers)
   \<and> baud_rate linux_headers numbered_by_rate 28800 = B9600 (speeds linux_headers)
   \<and> B9600 (speeds linux_headers) \<noteq> B38400 (speeds linux_headers)"
  by (simp add: enumerators_def supported_def nearest_supported_faster_def
      numbered_from_0_def numbered_by_rate_def baud_rate_def linux_headers_def)

subsection \<open>The result of \<^verbatim>\<open>open_serial_port\<close>\<close>





subsection \<open>Reading, writing, polling and waiting\<close>







text \<open>
  C8. \<^verbatim>\<open>helium_wait_us\<close> does not depend on its context parameter: for any two
  contexts the world and the log after the call are the same, and the one call made is
  \<^verbatim>\<open>usleep\<close> with the given number of microseconds.
\<close>

theorem helium_wait_us_ignores_param:
  "helium_wait_us os param us s = helium_wait_us os param' us s
   \<and> snd (helium_wait_us os param us (w, [])) = [Sys_usleep us]"
  by (simp add: helium_wait_us_def sys_usleep_def)

theorem helium_wait_us_ignores_param_witness:
  "helium_wait_us uart 0 1000 (ttyUSB0, []) = helium_wait_us uart 3 1000 (ttyUSB0, [])
   \<and> snd (helium_wait_us uart 0 1000 (ttyUSB0, [])) = [Sys_usleep 1000]"
  by (rule helium_wait_us_ignores_param)

subsection \<open>The line configuration\<close>



text \<open>
  C10. The attributes that \<^verbatim>\<open>open_serial_port\<close> commits come from the ones
  \<^verbatim>\<open>tcgetattr\<close> stored on the same descriptor. They differ from them only in the
  named bits of the four mode words, in the control characters \<^verbatim>\<open>VMIN\<close> and
  \<^verbatim>\<open>VTIME\<close>, and in what \<^verbatim>\<open>cfsetospeed\<close> and \<^verbatim>\<open>cfsetispeed\<close> write for
  the resolved baud rate: the input and the output speed, the speed bits of
  \<^verbatim>\<open>c_cflag\<close> and the bit \<^verbatim>\<open>IBAUD0\<close> of \<^verbatim>\<open>c_iflag\<close>. The line discipline
  and every other bit and control character are as read. Where the library accepts the
  rate, both speeds are that rate.
\<close>

theorem set_interface_attribs_frame:
  assumes "open_serial_port P E os portname baud (w, []) = (r, (w', tr))"
  shows "\<forall>fd actions tty' r4. Sys_tcsetattr fd actions tty' r4 \<in> set tr \<longrightarrow>
           (\<exists>r3 tty. Sys_tcgetattr fd r3 tty \<in> set tr
              \<and> same_outside_named_and_speed P (baud_rate P E baud) tty tty'
              \<and> (speed_accepted P (baud_rate P E baud) \<longrightarrow>
                   c_ispeed tty' = baud_rate P E baud \<and> c_ospeed tty' = baud_rate P E baud))"
  using open_serial_port_log [OF assms] configure_frame
  by (elim disjE exE conjE) (auto simp: configure_fields speed_set_speeds)

theorem set_interface_attribs_frame_witness:
  "open_serial_port linux_headers numbered_from_0 uart ''/dev/ttyUSB0'' 5 (ttyUSB0, [])
   = (3, (ttyUSB0\<lparr>dev_attrs := configure linux_headers cooked 4098, dev_fds := [3]\<rparr>,
       [Sys_open ''/dev/ttyUSB0'' 2306 3, Sys_ioctl 3 21516 0, Sys_fcntl 3 4 0 0,
        Sys_tcgetattr 3 0 cooked, Sys_tcsetattr 3 0 (configure linux_headers cooked 4098) 0]))
   \<and> speed_accepted linux_headers 4098
   \<and> same_outside_named_and_speed linux_headers 4098 cooked
       (configure linux_headers cooked 4098)
   \<and> c_ispeed (configure linux_headers cooked 4098) = 4098
   \<and> c_ospeed (configure linux_headers cooked 4098) = 4098"
proof -
  have b: "baud_rate linux_headers numbered_from_0 5 = 4098"
    by (simp add: baud_rate_def numbered_from_0_def linux_headers_def)
  have a: "speed_accepted linux_headers 4098"
    by (simp add: speed_accepted_def linux_headers_def)
  from set_interface_attribs_frame [OF uart_opens_at_115200] a
  have "same_outside_named_and_speed linux_headers 4098 cooked
          (configure linux_headers cooked 4098)
      \<and> c_ispeed (configure linux_headers cooked 4098) = 4098
      \<and> c_ospeed (configure linux_headers cooked 4098) = 4098"
    unfolding b by auto
  with a uart_opens_at_115200 show ?thesis by simp
qed

text \<open>
  The attributes are not left as read outside the named bits and control characters. A
  device read at 38400 baud with \<^verbatim>\<open>c_cflag\<close> 511 is committed at 115200 with
  \<^verbatim>\<open>c_cflag\<close> 6322: outside the named flags the speed bits have changed from 15 to
  4098, and both speed fields from 15 to 4098.
\<close>

theorem changed_speed_counterexample:
  "open_serial_port linux_headers numbered_from_0 uart ''/dev/ttyUSB0'' 5 (ttyUSB0, [])
   = (3, (ttyUSB0\<lparr>dev_attrs := configure linux_headers cooked 4098, dev_fds := [3]\<rparr>,
       [Sys_open ''/dev/ttyUSB0'' 2306 3, Sys_ioctl 3 21516 0, Sys_fcntl 3 4 0 0,
        Sys_tcgetattr 3 0 cooked, Sys_tcsetattr 3 0 (configure linux_headers cooked 4098) 0]))
   \<and> c_cflag cooked = 511
   \<and> c_cflag (configure linux_headers cooked 4098) = 6322
   \<and> c_cflag cooked AND NOT (cflag_named linux_headers) = 15
   \<and> c_cflag (configure linux_headers cooked 4098) AND NOT (cflag_named linux_headers) = 4098
   \<and> \<not> same_outside_named linux_headers cooked (configure linux_headers cooked 4098)
   \<and> c_ispeed cooked = 15 \<and> c_ospeed cooked = 15
   \<and> c_ispeed (configure linux_headers cooked 4098) = 4098
   \<and> c_ospeed (configure linux_headers cooked 4098) = 4098"
proof -
  have read: "c_cflag cooked = 511" "c_ispeed cooked = 15" "c_ospeed cooked = 15"
    by (simp_all add: cooked_def)
  have committed: "c_cflag (configure linux_headers cooked 4098) = 6322"
    "c_ispeed (configure linux_headers cooked 4098) = 4098"
    "c_ospeed (configure linux_headers cooked 4098) = 4098"
    by (simp_all add: committed_at_115200)
  have named: "cflag_named linux_headers = 2147486192"
    by (simp add: cflag_named_def linux_headers_def)
  have outside: "c_cflag cooked AND NOT (cflag_named linux_headers) = 15"
    "c_cflag (configure linux_headers cooked 4098) AND NOT (cflag_named linux_headers) = 4098"
    unfolding read committed named by simp_all
  have "\<not> same_outside_named linux_headers cooked (configure linux_headers cooked 4098)"
    unfolding same_outside_named_def outside by simp
  with read committed outside uart_opens_at_115200 show ?thesis by simp
qed

end
